theory Spec2Isabelle
  imports Complex_Main "HOL-Library.Word"
begin

section \<open>Data model (services/state-machine/src/types/index.ts)\<close>

text \<open>
  The two enums of the state-machine service. \<open>EventType.ERROR\<close> is written \<open>EV_ERROR\<close>,
  since \<open>ConversationState.ERROR\<close> already owns the name.
\<close>

datatype ConversationState =
  IDLE | LISTENING | TRANSCRIBING | INTERPRETING | ANSWERING | SPEAKING
  | INTERRUPTED | ERROR | ENDED

datatype EventType =
  START_SESSION | END_SESSION | USER_AUDIO | USER_INTERRUPT | VAD_START | VAD_END
  | TRANSCRIPTION_PARTIAL | TRANSCRIPTION_FINAL | LLM_THINKING | LLM_RESPONSE_START
  | LLM_RESPONSE_CHUNK | LLM_RESPONSE_COMPLETE | TTS_START | TTS_CHUNK | TTS_COMPLETE
  | TTS_STOPPED | STATE_CHANGE | EV_ERROR

type_synonym byte = "8 word"

record SessionConfig =
  tenantId :: string
  userId :: string
  voice :: "string option"
  tone :: "string option"
  cfg_energy :: "string option"
  pace :: "string option"
  prosody :: "string option"
  enableBreaths :: "bool option"
  enableSSML :: "bool option"

record AudioChunk =
  chunk_data :: "byte list"
  chunk_timestamp :: nat
  sampleRate :: nat
  channels :: nat

record ConversationTurn =
  turn_id :: string
  user_text :: string
  assistant_text :: string
  citations :: "string list"
  audio_duration_ms :: nat
  latency_ms :: nat
  turn_timestamp :: nat

text \<open>
  The \<open>data\<close> field of an \<open>EventPayload\<close> has type \<open>any\<close>. The handlers read three
  properties of it (\<open>text\<close>, \<open>stream_id\<close>, \<open>message\<close>) and otherwise store it as it
  is. The shapes below are the ones the callers pass: an audio chunk, a transcription
  result, a reasoning response, \<open>{stream_id}\<close>, a bare string (the error wiring of the
  server), an error object with a message, and \<open>DataOther\<close> for an object with none of
  the properties read (\<open>{}\<close> in the tests). A property that is not there reads as
  undefined, here \<open>None\<close>.
\<close>

datatype EventData =
  DataOther
  | DataString string
  | DataAudio AudioChunk
  | DataTranscription string
  | DataResponse string "string list"
  | DataStream string
  | DataError string

fun data_text :: "EventData \<Rightarrow> string option" where
  "data_text (DataTranscription t) = Some t"
| "data_text (DataResponse t cs) = Some t"
| "data_text _ = None"

fun data_stream_id :: "EventData \<Rightarrow> string option" where
  "data_stream_id (DataStream sid) = Some sid"
| "data_stream_id _ = None"

fun data_message :: "EventData \<Rightarrow> string option" where
  "data_message (DataError msg) = Some msg"
| "data_message _ = None"

text \<open>The metadata objects that the handlers attach to a transition.\<close>

datatype Metadata =
  AudioChunksMeta nat
  | InterruptedStateMeta ConversationState
  | TranscriptMeta "string option"
  | ResponseLengthMeta nat
  | ErrorMessageMeta string
  | ErrorValueMeta EventData

record StateTransition =
  from_state :: ConversationState
  to_state :: ConversationState
  t_event :: EventType
  t_timestamp :: nat
  t_metadata :: "Metadata option"

record SessionMetrics =
  m_session_id :: string
  total_turns :: nat
  total_duration_ms :: nat
  avg_latency_ms :: nat
  interruption_count :: nat
  error_count :: nat
  m_created_at :: nat

record Session =
  session_id :: string
  config :: SessionConfig
  state :: ConversationState
  conversation_history :: "ConversationTurn list"
  current_turn :: "ConversationTurn option"
  audio_buffer :: "EventData list"
  transcript_buffer :: "EventData list"
  pending_response :: "EventData option"
  tts_stream_id :: "string option"
  metrics :: SessionMetrics
  state_history :: "StateTransition list"
  created_at :: nat
  last_activity :: nat

record EventPayload =
  p_session_id :: string
  p_event :: EventType
  p_data :: EventData
  p_timestamp :: nat

section \<open>The conversation state machine (ConversationStateMachine)\<close>

text \<open>
  What the class emits on its event emitter, and the timeouts it schedules. Both are
  kept as logs in the machine, in emission order.
\<close>

datatype Emission =
  SessionCreated string SessionConfig
  | SessionDeleted string
  | StateChanged string StateTransition
  | StopTts string "string option"
  | Forwarded EventType string EventData

datatype Timeout = InterruptDwell string nat | ErrorRecovery string nat

record Machine =
  sessions :: "string \<rightharpoonup> Session"
  emitted :: "Emission list"
  timeouts :: "Timeout list"

definition newMachine :: Machine where
  "newMachine = \<lparr>sessions = Map.empty, emitted = [], timeouts = []\<rparr>"

text \<open>\<open>initializeTransitionRules\<close>: the table, one set per state; \<open>ENDED\<close> has no entry.\<close>

fun transitionRules :: "ConversationState \<Rightarrow> ConversationState set option" where
  "transitionRules IDLE = Some {LISTENING, ENDED}"
| "transitionRules LISTENING = Some {TRANSCRIBING, IDLE, INTERRUPTED, ENDED}"
| "transitionRules TRANSCRIBING = Some {INTERPRETING, LISTENING, INTERRUPTED, ERROR, ENDED}"
| "transitionRules INTERPRETING = Some {ANSWERING, INTERRUPTED, ERROR, ENDED}"
| "transitionRules ANSWERING = Some {SPEAKING, INTERRUPTED, ERROR, ENDED}"
| "transitionRules SPEAKING = Some {LISTENING, IDLE, INTERRUPTED, ERROR, ENDED}"
| "transitionRules INTERRUPTED = Some {LISTENING, IDLE, ENDED}"
| "transitionRules ERROR = Some {IDLE, LISTENING, ENDED}"
| "transitionRules ENDED = None"

text \<open>
  \<open>createSession\<close>. The identifier that \<open>uuidv4()\<close> draws and the clock reading are
  arguments. The result is the new session and the machine holding it.
\<close>

definition createSession :: "Machine \<Rightarrow> SessionConfig \<Rightarrow> string \<Rightarrow> nat \<Rightarrow> Session \<times> Machine" where
  "createSession m cfg sid now =
     (let session = \<lparr>session_id = sid, config = cfg, state = IDLE,
            conversation_history = [], current_turn = None, audio_buffer = [],
            transcript_buffer = [], pending_response = None, tts_stream_id = None,
            metrics = \<lparr>m_session_id = sid, total_turns = 0, total_duration_ms = 0,
              avg_latency_ms = 0, interruption_count = 0, error_count = 0,
              m_created_at = now\<rparr>,
            state_history = [], created_at = now, last_activity = now\<rparr>
      in (session, m\<lparr>sessions := (sessions m)(sid \<mapsto> session),
                       emitted := emitted m @ [SessionCreated sid cfg]\<rparr>))"

definition getSession :: "Machine \<Rightarrow> string \<Rightarrow> Session option" where
  "getSession m sid = sessions m sid"

text \<open>
  A session object is shared between the registry and the handler that received it. The
  registry is the store: a handler holds the key \<open>sid\<close> under which the object was found,
  reads the object's fields through the registry and writes them with \<open>updateSession\<close>.
  Every session is stored under its own \<open>session_id\<close> (\<open>createSession\<close>) and the field
  is never written afterwards, so the \<open>session.session_id\<close> that a handler passes to
  \<open>transitionTo\<close> is that key.
\<close>

definition updateSession :: "Machine \<Rightarrow> string \<Rightarrow> (Session \<Rightarrow> Session) \<Rightarrow> Machine" where
  "updateSession m sid f =
     (case sessions m sid of
        None \<Rightarrow> m
      | Some session \<Rightarrow> m\<lparr>sessions := (sessions m)(sid \<mapsto> f session)\<rparr>)"

definition emit :: "Machine \<Rightarrow> Emission \<Rightarrow> Machine" where
  "emit m e = m\<lparr>emitted := emitted m @ [e]\<rparr>"

definition setTimeout :: "Machine \<Rightarrow> Timeout \<Rightarrow> Machine" where
  "setTimeout m t = m\<lparr>timeouts := timeouts m @ [t]\<rparr>"

text \<open>
  \<open>transitionTo\<close>: the boolean it returns and the machine afterwards. The two
  \<open>console\<close> calls on the refusing branches leave the machine as it was.
\<close>

definition transitionTo ::
  "Machine \<Rightarrow> string \<Rightarrow> ConversationState \<Rightarrow> Metadata option \<Rightarrow> nat \<Rightarrow> bool \<times> Machine" where
  "transitionTo m sid newState md now =
     (case sessions m sid of
        None \<Rightarrow> (False, m)
      | Some session \<Rightarrow>
          (let currentState = state session in
           case transitionRules currentState of
             None \<Rightarrow> (False, m)
           | Some validTransitions \<Rightarrow>
               if newState \<notin> validTransitions then (False, m)
               else
                 (let transition = \<lparr>from_state = currentState, to_state = newState,
                        t_event = STATE_CHANGE, t_timestamp = now, t_metadata = md\<rparr>;
                      session' = session\<lparr>state := newState,
                        state_history := state_history session @ [transition],
                        last_activity := now\<rparr>
                  in (True, m\<lparr>sessions := (sessions m)(sid \<mapsto> session'),
                               emitted := emitted m @ [StateChanged sid transition]\<rparr>))))"

text \<open>The pairs of the transition table, as a predicate.\<close>

definition legal :: "ConversationState \<Rightarrow> ConversationState \<Rightarrow> bool" where
  "legal a b = (case transitionRules a of None \<Rightarrow> False | Some v \<Rightarrow> b \<in> v)"

definition deleteSession :: "Machine \<Rightarrow> string \<Rightarrow> nat \<Rightarrow> bool \<times> Machine" where
  "deleteSession m sid now =
     (case sessions m sid of
        None \<Rightarrow> (False, m)
      | Some session \<Rightarrow>
          (let m1 = snd (transitionTo m sid ENDED None now);
               m2 = m1\<lparr>sessions := (sessions m1)(sid := None)\<rparr>
           in (True, emit m2 (SessionDeleted sid))))"

text \<open>
  The handlers. Each takes the key of the session object it was handed, and the clock.
  \<open>handleVADEnd\<close> ignores its \<open>data\<close> argument, as in the source.
\<close>

definition handleUserInterrupt :: "Machine \<Rightarrow> string \<Rightarrow> nat \<Rightarrow> Machine" where
  "handleUserInterrupt m sid now =
     (case sessions m sid of
        None \<Rightarrow> m
      | Some session \<Rightarrow>
          (let currentState = state session in
           if currentState = SPEAKING \<or> currentState = ANSWERING then
             (let m1 = snd (transitionTo m sid INTERRUPTED
                         (Some (InterruptedStateMeta currentState)) now);
                  m2 = updateSession m1 sid (\<lambda>s. s\<lparr>metrics := (metrics s)
                         \<lparr>interruption_count := interruption_count (metrics s) + 1\<rparr>\<rparr>);
                  m3 = emit m2 (StopTts sid
                         (case sessions m2 sid of None \<Rightarrow> None | Some s \<Rightarrow> tts_stream_id s))
              in setTimeout m3 (InterruptDwell sid 200))
           else m))"

definition handleVADStart :: "Machine \<Rightarrow> string \<Rightarrow> nat \<Rightarrow> Machine" where
  "handleVADStart m sid now =
     (case sessions m sid of
        None \<Rightarrow> m
      | Some session \<Rightarrow>
          if state session = IDLE then snd (transitionTo m sid LISTENING None now)
          else if state session = SPEAKING then handleUserInterrupt m sid now
          else m)"

definition handleVADEnd :: "Machine \<Rightarrow> string \<Rightarrow> EventData \<Rightarrow> nat \<Rightarrow> Machine" where
  "handleVADEnd m sid data now =
     (case sessions m sid of
        None \<Rightarrow> m
      | Some session \<Rightarrow>
          if state session = LISTENING then
            snd (transitionTo m sid TRANSCRIBING
                   (Some (AudioChunksMeta (length (audio_buffer session)))) now)
          else m)"

definition handleUserAudio :: "Machine \<Rightarrow> string \<Rightarrow> EventData \<Rightarrow> nat \<Rightarrow> Machine" where
  "handleUserAudio m sid data now =
     (let m1 = updateSession m sid (\<lambda>s. s\<lparr>audio_buffer := audio_buffer s @ [data]\<rparr>) in
      case sessions m1 sid of
        None \<Rightarrow> m1
      | Some session \<Rightarrow>
          if state session = IDLE then snd (transitionTo m1 sid LISTENING None now)
          else m1)"

definition handleTranscriptionFinal :: "Machine \<Rightarrow> string \<Rightarrow> EventData \<Rightarrow> nat \<Rightarrow> Machine" where
  "handleTranscriptionFinal m sid data now =
     (case sessions m sid of
        None \<Rightarrow> m
      | Some session \<Rightarrow>
          if state session = TRANSCRIBING then
            (let m1 = updateSession m sid
                        (\<lambda>s. s\<lparr>transcript_buffer := transcript_buffer s @ [data]\<rparr>);
                 m2 = snd (transitionTo m1 sid INTERPRETING
                        (Some (TranscriptMeta (data_text data))) now)
             in updateSession m2 sid (\<lambda>s. s\<lparr>audio_buffer := []\<rparr>))
          else m)"

definition handleLLMResponseComplete :: "Machine \<Rightarrow> string \<Rightarrow> EventData \<Rightarrow> nat \<Rightarrow> Machine" where
  "handleLLMResponseComplete m sid data now =
     (case sessions m sid of
        None \<Rightarrow> m
      | Some session \<Rightarrow>
          if state session = INTERPRETING then
            (let m1 = updateSession m sid (\<lambda>s. s\<lparr>pending_response := Some data\<rparr>)
             in snd (transitionTo m1 sid ANSWERING
                  (Some (ResponseLengthMeta
                     (case data_text data of None \<Rightarrow> 0 | Some t \<Rightarrow> length t))) now))
          else m)"

definition handleTTSStart :: "Machine \<Rightarrow> string \<Rightarrow> EventData \<Rightarrow> nat \<Rightarrow> Machine" where
  "handleTTSStart m sid data now =
     (case sessions m sid of
        None \<Rightarrow> m
      | Some session \<Rightarrow>
          if state session = ANSWERING then
            (let m1 = updateSession m sid (\<lambda>s. s\<lparr>tts_stream_id := data_stream_id data\<rparr>)
             in snd (transitionTo m1 sid SPEAKING None now))
          else m)"

definition recordTurn :: "Session \<Rightarrow> Session" where
  "recordTurn s =
     (case current_turn s of
        None \<Rightarrow> s
      | Some turn \<Rightarrow>
          s\<lparr>conversation_history := conversation_history s @ [turn],
            metrics := (metrics s)\<lparr>total_turns := total_turns (metrics s) + 1\<rparr>,
            current_turn := None\<rparr>)"

definition handleTTSComplete :: "Machine \<Rightarrow> string \<Rightarrow> nat \<Rightarrow> Machine" where
  "handleTTSComplete m sid now =
     (case sessions m sid of
        None \<Rightarrow> m
      | Some session \<Rightarrow>
          if state session = SPEAKING then
            (let m1 = snd (transitionTo m sid IDLE None now);
                 m2 = updateSession m1 sid recordTurn
             in updateSession m2 sid
                  (\<lambda>s. s\<lparr>transcript_buffer := [], pending_response := None,
                          tts_stream_id := None\<rparr>))
          else m)"

text \<open>\<open>error.message || error\<close>: the message when there is a non-empty one, else the value.\<close>

definition errorMetadata :: "EventData \<Rightarrow> Metadata" where
  "errorMetadata err =
     (case data_message err of
        Some msg \<Rightarrow> if msg \<noteq> [] then ErrorMessageMeta msg else ErrorValueMeta err
      | None \<Rightarrow> ErrorValueMeta err)"

definition handleError :: "Machine \<Rightarrow> string \<Rightarrow> EventData \<Rightarrow> nat \<Rightarrow> Machine" where
  "handleError m sid err now =
     (let m1 = snd (transitionTo m sid ERROR (Some (errorMetadata err)) now);
          m2 = updateSession m1 sid (\<lambda>s. s\<lparr>metrics := (metrics s)
                 \<lparr>error_count := error_count (metrics s) + 1\<rparr>\<rparr>)
      in setTimeout m2 (ErrorRecovery sid 2000))"

text \<open>
  \<open>handleEvent\<close>. The session is looked up by the payload's id; an unknown id returns at
  once. Otherwise \<open>last_activity\<close> is written and the event dispatched; an event type
  without a handler is forwarded on the emitter.
\<close>

definition handleEvent :: "Machine \<Rightarrow> EventPayload \<Rightarrow> nat \<Rightarrow> Machine" where
  "handleEvent m payload now =
     (let sid = p_session_id payload; data = p_data payload in
      case sessions m sid of
        None \<Rightarrow> m
      | Some session \<Rightarrow>
          (let m1 = updateSession m sid (\<lambda>s. s\<lparr>last_activity := now\<rparr>) in
           case p_event payload of
             VAD_START \<Rightarrow> handleVADStart m1 sid now
           | VAD_END \<Rightarrow> handleVADEnd m1 sid data now
           | USER_AUDIO \<Rightarrow> handleUserAudio m1 sid data now
           | USER_INTERRUPT \<Rightarrow> handleUserInterrupt m1 sid now
           | TRANSCRIPTION_FINAL \<Rightarrow> handleTranscriptionFinal m1 sid data now
           | LLM_RESPONSE_COMPLETE \<Rightarrow> handleLLMResponseComplete m1 sid data now
           | TTS_START \<Rightarrow> handleTTSStart m1 sid data now
           | TTS_COMPLETE \<Rightarrow> handleTTSComplete m1 sid now
           | EV_ERROR \<Rightarrow> handleError m1 sid data now
           | _ \<Rightarrow> emit m1 (Forwarded (p_event payload) sid data)))"

text \<open>
  The two timer callbacks, run when a timeout elapses. Each closure holds the session
  object and tests its state before it asks for the transition. An object that has left
  the registry is in \<open>ENDED\<close> (\<open>deleteSession\<close> moves it there first), so for it the test
  fails, as the look-up does here.
\<close>

definition interruptDwellElapsed :: "Machine \<Rightarrow> string \<Rightarrow> nat \<Rightarrow> Machine" where
  "interruptDwellElapsed m sid now =
     (case sessions m sid of
        None \<Rightarrow> m
      | Some session \<Rightarrow>
          if state session = INTERRUPTED then snd (transitionTo m sid LISTENING None now)
          else m)"

definition errorRecoveryElapsed :: "Machine \<Rightarrow> string \<Rightarrow> nat \<Rightarrow> Machine" where
  "errorRecoveryElapsed m sid now =
     (case sessions m sid of
        None \<Rightarrow> m
      | Some session \<Rightarrow>
          if state session = ERROR then snd (transitionTo m sid IDLE None now)
          else m)"

text \<open>
  What can happen to a machine between the creation of a session and an observation: an
  event is handled, a timer callback runs, or the orchestrator's \<open>processTurn\<close> assigns
  \<open>session.current_turn\<close> (its only write to a session). Each step carries the clock
  reading at which it runs. A timer callback may run at any point of a run: this allows
  more runs than the timers do, and no fewer.
\<close>

datatype Step =
  Event EventPayload
  | InterruptTimer string
  | ErrorTimer string
  | SetCurrentTurn string ConversationTurn

fun applyStep :: "Machine \<Rightarrow> Step \<times> nat \<Rightarrow> Machine" where
  "applyStep m (Event payload, now) = handleEvent m payload now"
| "applyStep m (InterruptTimer sid, now) = interruptDwellElapsed m sid now"
| "applyStep m (ErrorTimer sid, now) = errorRecoveryElapsed m sid now"
| "applyStep m (SetCurrentTurn sid turn, now) =
     updateSession m sid (\<lambda>s. s\<lparr>current_turn := Some turn\<rparr>)"

fun run :: "Machine \<Rightarrow> (Step \<times> nat) list \<Rightarrow> Machine" where
  "run m [] = m"
| "run m (st # rest) = run (applyStep m st) rest"

text \<open>A \<open>tts_start\<close> event whose payload has no \<open>stream_id\<close> stores undefined as the handle.\<close>

fun carriesStreamId :: "Step \<times> nat \<Rightarrow> bool" where
  "carriesStreamId (Event payload, now) =
     (p_event payload = TTS_START \<longrightarrow> data_stream_id (p_data payload) \<noteq> None)"
| "carriesStreamId _ = True"

definition speakingToIdle :: "StateTransition \<Rightarrow> bool" where
  "speakingToIdle t = (from_state t = SPEAKING \<and> to_state t = IDLE)"

definition event :: "string \<Rightarrow> EventType \<Rightarrow> EventData \<Rightarrow> EventPayload" where
  "event sid ev data = \<lparr>p_session_id = sid, p_event = ev, p_data = data, p_timestamp = 0\<rparr>"

definition testConfig :: SessionConfig where
  "testConfig = \<lparr>tenantId = ''test-tenant'', userId = ''test-user'', voice = Some ''alloy'',
     tone = None, cfg_energy = None, pace = None, prosody = None,
     enableBreaths = Some True, enableSSML = Some True\<rparr>"

section \<open>The reasoning request (ConversationOrchestrator.getLLMResponse)\<close>

record Message =
  role :: string
  content :: string

record ChatRequest =
  messages :: "Message list"
  r_tenantId :: string
  r_userId :: string
  r_sessionId :: string

text \<open>
  \<open>Array.prototype.slice(start)\<close>: a negative start counts from the end and stops at the
  first element, a start beyond the end gives the empty array.
\<close>

definition slice :: "'a list \<Rightarrow> int \<Rightarrow> 'a list" where
  "slice xs start =
     (let len = int (length xs);
          k = (if start < 0 then max (len + start) 0 else min start len)
      in drop (nat k) xs)"

text \<open>The \<open>for\<close> loop over the recent history: two pushes for each turn.\<close>

fun pushTurns :: "Message list \<Rightarrow> ConversationTurn list \<Rightarrow> Message list" where
  "pushTurns msgs [] = msgs"
| "pushTurns msgs (turn # rest) =
     pushTurns (msgs @ [\<lparr>role = ''user'', content = user_text turn\<rparr>,
                        \<lparr>role = ''assistant'', content = assistant_text turn\<rparr>]) rest"

text \<open>
  The body that \<open>getLLMResponse\<close> posts to the reasoning service. What the service
  answers does not enter it.
\<close>

definition getLLMResponse_request :: "Session \<Rightarrow> string \<Rightarrow> ChatRequest" where
  "getLLMResponse_request session userText =
     (let recentHistory = slice (conversation_history session) (- 5);
          msgs = pushTurns [] recentHistory;
          msgs = msgs @ [\<lparr>role = ''user'', content = userText\<rparr>]
      in \<lparr>messages = msgs, r_tenantId = tenantId (config session),
          r_userId = userId (config session), r_sessionId = session_id session\<rparr>)"

text \<open>The two messages that stand for one turn, in the words of the specification.\<close>

definition turnMessages :: "ConversationTurn \<Rightarrow> Message list" where
  "turnMessages turn = [\<lparr>role = ''user'', content = user_text turn\<rparr>,
                        \<lparr>role = ''assistant'', content = assistant_text turn\<rparr>]"

section \<open>Voice activity detection (WebRTCHandler)\<close>

text \<open>
  JavaScript numbers are IEEE 754 doubles. A finite double is written here as the real
  number it denotes (the two zeros as one value: the only division by zero that the
  detector can make is 0/0), next to NaN and the two infinities. The comparison \<open>>\<close>
  of two doubles is exact and false when either side is NaN.
\<close>

datatype number = NaN | Finite real | PosInfinity | NegInfinity

fun numberGt :: "number \<Rightarrow> number \<Rightarrow> bool" where
  "numberGt (Finite x) (Finite y) = (x > y)"
| "numberGt (Finite x) NegInfinity = True"
| "numberGt PosInfinity (Finite y) = True"
| "numberGt PosInfinity NegInfinity = True"
| "numberGt _ _ = False"

text \<open>
  The arithmetic on doubles belongs to the runtime and rounds its results. The four
  operations that the detector uses are arguments of the model, so that what is proved
  holds however they round.
\<close>

record Float64 =
  f_add :: "number \<Rightarrow> number \<Rightarrow> number"
  f_mul :: "number \<Rightarrow> number \<Rightarrow> number"
  f_div :: "number \<Rightarrow> number \<Rightarrow> number"
  f_sqrt :: "number \<Rightarrow> number"

text \<open>
  The handler's maps by session id, its two settings and what it emits. A silence timer
  is in \<open>silenceTimers\<close> from the moment it is armed until it is cleared or fires: every
  path that clears a timer deletes its entry and the callback deletes its own, so the
  entries are the pending timers. Of a connection only the key is kept.
\<close>

datatype HandlerEmission =
  EmitUserAudio string AudioChunk
  | EmitVadStart string
  | EmitVadEnd string
  | EmitDisconnected string

datatype VadError = RangeError

record WebRTCHandler =
  connections :: "string set"
  audioStreams :: "string \<rightharpoonup> nat"
  silenceTimers :: "string \<rightharpoonup> nat"
  vadThreshold :: number
  silenceThreshold :: nat
  w_emitted :: "HandlerEmission list"

text \<open>The double that the literal \<open>0.01\<close> denotes is 5764607523034235 / 2^59.\<close>

definition newHandler :: WebRTCHandler where
  "newHandler = \<lparr>connections = {}, audioStreams = Map.empty, silenceTimers = Map.empty,
     vadThreshold = Finite (5764607523034235 / 576460752303423488),
     silenceThreshold = 1000, w_emitted = []\<rparr>"

definition configureVAD :: "WebRTCHandler \<Rightarrow> number \<Rightarrow> nat \<Rightarrow> WebRTCHandler" where
  "configureVAD h threshold silenceMs = h\<lparr>vadThreshold := threshold, silenceThreshold := silenceMs\<rparr>"

text \<open>\<open>Buffer.readInt16LE\<close> on the two bytes at an offset: two's complement, low byte first.\<close>

definition readInt16LE :: "byte \<Rightarrow> byte \<Rightarrow> int" where
  "readInt16LE lo hi =
     (let val = uint lo + uint hi * 2 ^ 8 in if val < 2 ^ 15 then val else val - 2 ^ 16)"

text \<open>
  The loop of \<open>calculateRMSEnergy\<close>, two bytes at a time; \<open>acc\<close> is its \<open>sum\<close>.
  With one byte left the read at that offset is out of range and throws. A sample and the
  buffer length are integers, which the doubles hold exactly.
\<close>

fun sumSquares :: "Float64 \<Rightarrow> byte list \<Rightarrow> number \<Rightarrow> VadError + number" where
  "sumSquares fl [] acc = Inr acc"
| "sumSquares fl [b] acc = Inl RangeError"
| "sumSquares fl (lo # hi # rest) acc =
     (let sample = f_div fl (Finite (real_of_int (readInt16LE lo hi))) (Finite 32768)
      in sumSquares fl rest (f_add fl acc (f_mul fl sample sample)))"

definition calculateRMSEnergy :: "Float64 \<Rightarrow> byte list \<Rightarrow> VadError + number" where
  "calculateRMSEnergy fl buffer =
     (let samples = f_div fl (Finite (real (length buffer))) (Finite 2) in
      case sumSquares fl buffer (Finite 0) of
        Inl e \<Rightarrow> Inl e
      | Inr acc \<Rightarrow> Inr (f_sqrt fl (f_div fl acc samples)))"

text \<open>\<open>performVAD\<close>: the exception, if one was thrown, and the handler afterwards.\<close>

definition performVAD ::
  "Float64 \<Rightarrow> WebRTCHandler \<Rightarrow> string \<Rightarrow> byte list \<Rightarrow> nat
     \<Rightarrow> VadError option \<times> WebRTCHandler" where
  "performVAD fl h sid audioData now =
     (case calculateRMSEnergy fl audioData of
        Inl e \<Rightarrow> (Some e, h)
      | Inr energy \<Rightarrow>
          (let isSpeaking = numberGt energy (vadThreshold h) in
           if isSpeaking then
             (let h1 = (case silenceTimers h sid of
                          None \<Rightarrow> h
                        | Some timer \<Rightarrow> h\<lparr>silenceTimers := (silenceTimers h)(sid := None)\<rparr>)
              in if audioStreams h1 sid = None then
                   (None, h1\<lparr>audioStreams := (audioStreams h1)(sid \<mapsto> now),
                             w_emitted := w_emitted h1 @ [EmitVadStart sid]\<rparr>)
                 else (None, h1))
           else if audioStreams h sid \<noteq> None \<and> silenceTimers h sid = None then
             (None, h\<lparr>silenceTimers := (silenceTimers h)(sid \<mapsto> silenceThreshold h)\<rparr>)
           else (None, h)))"

text \<open>The callback of the silence timer; without a pending timer nothing runs.\<close>

definition silenceElapsed :: "WebRTCHandler \<Rightarrow> string \<Rightarrow> WebRTCHandler" where
  "silenceElapsed h sid =
     (case silenceTimers h sid of
        None \<Rightarrow> h
      | Some timer \<Rightarrow>
          h\<lparr>audioStreams := (audioStreams h)(sid := None),
            silenceTimers := (silenceTimers h)(sid := None),
            w_emitted := w_emitted h @ [EmitVadEnd sid]\<rparr>)"

definition handleAudioData ::
  "Float64 \<Rightarrow> WebRTCHandler \<Rightarrow> string \<Rightarrow> byte list \<Rightarrow> nat
     \<Rightarrow> VadError option \<times> WebRTCHandler" where
  "handleAudioData fl h sid data now =
     (let chunk = \<lparr>chunk_data = data, chunk_timestamp = now, sampleRate = 16000, channels = 1\<rparr>;
          h1 = h\<lparr>w_emitted := w_emitted h @ [EmitUserAudio sid chunk]\<rparr>
      in performVAD fl h1 sid data now)"

text \<open>
  \<open>handleConnection\<close> stores the socket under the session id; the server accepts a
  connection for any session that the registry still holds, so also a second one after a
  disconnection. \<open>handleDisconnect\<close> removes the socket, the speaking mark and the
  pending timer, and emits \<open>disconnected\<close>.
\<close>

definition handleConnection :: "WebRTCHandler \<Rightarrow> string \<Rightarrow> WebRTCHandler" where
  "handleConnection h sid = h\<lparr>connections := insert sid (connections h)\<rparr>"

definition handleDisconnect :: "WebRTCHandler \<Rightarrow> string \<Rightarrow> WebRTCHandler" where
  "handleDisconnect h sid =
     (let h1 = h\<lparr>connections := connections h - {sid},
                 audioStreams := (audioStreams h)(sid := None)\<rparr>;
          h2 = (case silenceTimers h1 sid of
                  None \<Rightarrow> h1
                | Some timer \<Rightarrow> h1\<lparr>silenceTimers := (silenceTimers h1)(sid := None)\<rparr>)
      in h2\<lparr>w_emitted := w_emitted h2 @ [EmitDisconnected sid]\<rparr>)"

text \<open>
  A run of the handler: connections open and close, binary frames arrive, silence timers
  fire, the detector is reconfigured. An exception ends the run where it was thrown.
\<close>

datatype VadStep =
  Connect string
  | Frame string "byte list"
  | SilenceTimer string
  | Disconnect string
  | Configure number nat

fun vadStep ::
  "Float64 \<Rightarrow> WebRTCHandler \<Rightarrow> VadStep \<times> nat \<Rightarrow> VadError option \<times> WebRTCHandler" where
  "vadStep fl h (Connect sid, now) = (None, handleConnection h sid)"
| "vadStep fl h (Frame sid data, now) = handleAudioData fl h sid data now"
| "vadStep fl h (SilenceTimer sid, now) = (None, silenceElapsed h sid)"
| "vadStep fl h (Disconnect sid, now) = (None, handleDisconnect h sid)"
| "vadStep fl h (Configure threshold silenceMs, now) = (None, configureVAD h threshold silenceMs)"

fun runVAD ::
  "Float64 \<Rightarrow> WebRTCHandler \<Rightarrow> (VadStep \<times> nat) list \<Rightarrow> VadError option \<times> WebRTCHandler" where
  "runVAD fl h [] = (None, h)"
| "runVAD fl h (st # rest) =
     (case vadStep fl h st of
        (Some e, h') \<Rightarrow> (Some e, h')
      | (None, h') \<Rightarrow> runVAD fl h' rest)"

text \<open>
  The energy in the words of the specification. The samples of a frame are its 16-bit
  little-endian words read in two's complement, as the library defines it. The energy is
  the square root of the mean of the squares of the samples over 32768, the mean being
  the sum over half the byte count, each operation done by the runtime.
\<close>

fun samplesOf :: "byte list \<Rightarrow> int list" where
  "samplesOf (lo # hi # rest) = signed_take_bit 15 (uint lo + uint hi * 2 ^ 8) # samplesOf rest"
| "samplesOf _ = []"

definition normalizedSquare :: "Float64 \<Rightarrow> int \<Rightarrow> number" where
  "normalizedSquare fl x =
     f_mul fl (f_div fl (Finite (real_of_int x)) (Finite 32768))
              (f_div fl (Finite (real_of_int x)) (Finite 32768))"

definition rmsEnergy :: "Float64 \<Rightarrow> int list \<Rightarrow> number" where
  "rmsEnergy fl xs =
     f_sqrt fl (f_div fl
       (foldl (\<lambda>acc x. f_add fl acc (normalizedSquare fl x)) (Finite 0) xs)
       (f_div fl (Finite (real (2 * length xs))) (Finite 2)))"

text \<open>
  Arithmetic without rounding, for the scenarios: their operands and results are dyadic
  fractions of a few bits, which the doubles hold exactly, so that the runtime computes
  the same. Outside finite operands with a finite result it gives NaN; of these cases the
  scenarios reach none, and 0/0 is NaN for the runtime too.
\<close>

fun exactAdd :: "number \<Rightarrow> number \<Rightarrow> number" where
  "exactAdd (Finite x) (Finite y) = Finite (x + y)"
| "exactAdd _ _ = NaN"

fun exactMul :: "number \<Rightarrow> number \<Rightarrow> number" where
  "exactMul (Finite x) (Finite y) = Finite (x * y)"
| "exactMul _ _ = NaN"

fun exactDiv :: "number \<Rightarrow> number \<Rightarrow> number" where
  "exactDiv (Finite x) (Finite y) = (if y = 0 then NaN else Finite (x / y))"
| "exactDiv _ _ = NaN"

fun exactSqrt :: "number \<Rightarrow> number" where
  "exactSqrt (Finite x) = (if x < 0 then NaN else Finite (sqrt x))"
| "exactSqrt _ = NaN"

definition exactArith :: Float64 where
  "exactArith = \<lparr>f_add = exactAdd, f_mul = exactMul, f_div = exactDiv, f_sqrt = exactSqrt\<rparr>"

text \<open>
  Strict alternation of the two edges of one session in an emission log, read from a
  given speaking flag: a start only while not speaking, an end only while speaking.
\<close>

fun alternates :: "string \<Rightarrow> bool \<Rightarrow> HandlerEmission list \<Rightarrow> bool" where
  "alternates sid speaking [] = True"
| "alternates sid speaking (e # es) =
     (if e = EmitVadStart sid then \<not> speaking \<and> alternates sid True es
      else if e = EmitVadEnd sid then speaking \<and> alternates sid False es
      else alternates sid speaking es)"

text \<open>
  The same within each connection: a \<open>disconnected\<close> of the session puts the flag back
  to not speaking. \<open>speakingAfter\<close> is the flag at the end of the log.
\<close>

fun alternatesPerConnection :: "string \<Rightarrow> bool \<Rightarrow> HandlerEmission list \<Rightarrow> bool" where
  "alternatesPerConnection sid speaking [] = True"
| "alternatesPerConnection sid speaking (e # es) =
     (if e = EmitVadStart sid then \<not> speaking \<and> alternatesPerConnection sid True es
      else if e = EmitVadEnd sid then speaking \<and> alternatesPerConnection sid False es
      else if e = EmitDisconnected sid then alternatesPerConnection sid False es
      else alternatesPerConnection sid speaking es)"

fun speakingAfter :: "string \<Rightarrow> bool \<Rightarrow> HandlerEmission list \<Rightarrow> bool" where
  "speakingAfter sid speaking [] = speaking"
| "speakingAfter sid speaking (e # es) =
     (if e = EmitVadStart sid then speakingAfter sid True es
      else if e = EmitVadEnd sid then speakingAfter sid False es
      else if e = EmitDisconnected sid then speakingAfter sid False es
      else speakingAfter sid speaking es)"

text \<open>The two edges of one session, picked from a log.\<close>

definition edgesOf :: "string \<Rightarrow> HandlerEmission list \<Rightarrow> HandlerEmission list" where
  "edgesOf sid es = filter (\<lambda>e. e = EmitVadStart sid \<or> e = EmitVadEnd sid) es"

text \<open>What holds of one session in every handler that a run reaches.\<close>

definition vadInvariant :: "string \<Rightarrow> WebRTCHandler \<Rightarrow> bool" where
  "vadInvariant sid h =
     (alternatesPerConnection sid False (w_emitted h)
      \<and> speakingAfter sid False (w_emitted h) = (audioStreams h sid \<noteq> None)
      \<and> (silenceTimers h sid \<noteq> None \<longrightarrow> audioStreams h sid \<noteq> None))"

section \<open>Scenarios\<close>

text \<open>
  One session, created in an empty machine, and event sequences along the conversation
  flow, with the payloads of the service's own tests, each event at the next clock tick.
\<close>

definition idleMachine :: Machine where
  "idleMachine = snd (createSession newMachine testConfig ''s1'' 0)"

definition toTranscribing :: "(Step \<times> nat) list" where
  "toTranscribing =
     [(Event (event ''s1'' VAD_START DataOther), 1),
      (Event (event ''s1'' VAD_END DataOther), 2)]"

definition toAnswering :: "(Step \<times> nat) list" where
  "toAnswering = toTranscribing @
     [(Event (event ''s1'' TRANSCRIPTION_FINAL (DataTranscription ''What is the PTO policy?'')), 3),
      (Event (event ''s1'' LLM_RESPONSE_COMPLETE (DataResponse ''The PTO policy is...'' [])), 4)]"

definition toSpeaking :: "(Step \<times> nat) list" where
  "toSpeaking = toAnswering @ [(Event (event ''s1'' TTS_START (DataStream ''stream-123'')), 5)]"

definition fullTurn :: "(Step \<times> nat) list" where
  "fullTurn = toSpeaking @ [(Event (event ''s1'' TTS_COMPLETE DataOther), 6)]"

definition bargeIn :: "(Step \<times> nat) list" where
  "bargeIn = toSpeaking @ [(Event (event ''s1'' USER_INTERRUPT DataOther), 6)]"

definition turn1 :: ConversationTurn where
  "turn1 = \<lparr>turn_id = ''t1'', user_text = ''What is the PTO policy?'',
     assistant_text = ''The PTO policy is...'', citations = [], audio_duration_ms = 0,
     latency_ms = 5, turn_timestamp = 6\<rparr>"

definition recordedTurn :: "(Step \<times> nat) list" where
  "recordedTurn = toSpeaking @
     [(SetCurrentTurn ''s1'' turn1, 6), (Event (event ''s1'' TTS_COMPLETE DataOther), 7)]"

definition endedMachine :: Machine where
  "endedMachine = snd (transitionTo idleMachine ''s1'' ENDED None 1)"

text \<open>
  Frames for the detector: one silent sample, and two samples of 16384, half of full
  scale. \<open>halfHandler\<close> has its threshold set to one half. In \<open>utterance\<close> a session
  speaks and falls silent on one connection; in \<open>reconnected\<close> its connection closes
  while it speaks and a second one carries the next loud frame.
\<close>

definition quietFrame :: "byte list" where
  "quietFrame = [0, 0]"

definition halfFrame :: "byte list" where
  "halfFrame = [0, 64, 0, 64]"

definition halfHandler :: WebRTCHandler where
  "halfHandler = configureVAD newHandler (Finite (1 / 2)) 1000"

definition utterance :: "(VadStep \<times> nat) list" where
  "utterance =
     [(Connect ''s1'', 0),
      (Frame ''s1'' halfFrame, 1), (Frame ''s1'' quietFrame, 2), (Frame ''s1'' halfFrame, 3),
      (Frame ''s1'' quietFrame, 4), (SilenceTimer ''s1'', 1004)]"

definition reconnected :: "(VadStep \<times> nat) list" where
  "reconnected =
     [(Connect ''s1'', 0), (Frame ''s1'' halfFrame, 1), (Disconnect ''s1'', 2),
      (Connect ''s1'', 3), (Frame ''s1'' halfFrame, 4)]"

section \<open>Shared lemmas\<close>

lemmas handler_defs = handleEvent_def handleVADStart_def handleVADEnd_def handleUserAudio_def
  handleUserInterrupt_def handleTranscriptionFinal_def handleLLMResponseComplete_def
  handleTTSStart_def handleTTSComplete_def handleError_def interruptDwellElapsed_def
  errorRecoveryElapsed_def transitionTo_def updateSession_def emit_def setTimeout_def
  recordTurn_def Let_def

lemmas scenario_defs = idleMachine_def toTranscribing_def toAnswering_def toSpeaking_def
  fullTurn_def bargeIn_def recordedTurn_def turn1_def endedMachine_def createSession_def newMachine_def event_def
  testConfig_def

lemma dom_handleEvent: "dom (sessions (handleEvent m payload now)) = dom (sessions m)"
  by (cases "p_event payload") (auto simp: handler_defs split: option.splits if_splits)

lemma ended_session:
  "map_option state (sessions endedMachine ''s1'') = Some ENDED"
  by (simp add: scenario_defs handler_defs)



lemma speaking_session:
  "map_option state (sessions (run idleMachine toSpeaking) ''s1'') = Some SPEAKING"
  by (simp add: scenario_defs handler_defs)

text \<open>A step changes the session under a key and neither adds nor removes one.\<close>

lemma applyStep_keeps:
  "sessions m k = Some s \<Longrightarrow> \<exists>s'. sessions (applyStep m st) k = Some s'"
proof (cases st)
  case (Pair a now)
  assume "sessions m k = Some s"
  then show ?thesis
    unfolding Pair
    by (cases a; cases "p_event (case a of Event p \<Rightarrow> p)")
       (auto simp: handler_defs split: option.splits if_splits)
qed

section \<open>Illegal transitions\<close>

text \<open>
  C1. A request for a transition that the table does not list, from any state and so also
  from \<open>ENDED\<close>, returns false and leaves the whole machine as it was: the session keeps
  its state and its state history, and stays in the registry.
\<close>

theorem transitionTo_illegal_noop:
  assumes "sessions m sid = Some s" and "\<not> legal (state s) newState"
  shows "fst (transitionTo m sid newState md now) = False
       \<and> snd (transitionTo m sid newState md now) = m
       \<and> map_option state (sessions (snd (transitionTo m sid newState md now)) sid)
           = Some (state s)
       \<and> map_option state_history (sessions (snd (transitionTo m sid newState md now)) sid)
           = Some (state_history s)"
  using assms by (auto simp: transitionTo_def legal_def split: option.splits)

theorem transitionTo_illegal_noop_witness:
  "map_option state (sessions endedMachine ''s1'') = Some ENDED
   \<and> \<not> legal ENDED LISTENING
   \<and> fst (transitionTo endedMachine ''s1'' LISTENING None 2) = False
   \<and> snd (transitionTo endedMachine ''s1'' LISTENING None 2) = endedMachine"
proof -
  from ended_session obtain s where s: "sessions endedMachine ''s1'' = Some s"
    and ended: "state s = ENDED"
    by auto
  have illegal: "\<not> legal (state s) LISTENING"
    by (simp add: ended legal_def)
  from transitionTo_illegal_noop [where md = None and now = 2, OF s illegal] s ended illegal
  show ?thesis by (simp add: ended_session)
qed

section \<open>Unknown sessions\<close>

text \<open>
  C9. For a session id that the registry does not hold, \<open>handleEvent\<close> returns the machine
  as it was and \<open>transitionTo\<close> returns false with the machine as it was. No event, for
  a known or an unknown id, changes which ids the registry holds.
\<close>

theorem unknown_session_noop:
  assumes "sessions m sid = None" and "p_session_id payload = sid"
  shows "handleEvent m payload now = m
       \<and> transitionTo m sid newState md now = (False, m)
       \<and> dom (sessions (handleEvent m' payload' now')) = dom (sessions m')"
proof -
  from assms have "handleEvent m payload now = m"
    by (simp add: handleEvent_def)
  moreover from assms have "transitionTo m sid newState md now = (False, m)"
    by (simp add: transitionTo_def)
  ultimately show ?thesis
    by (simp add: dom_handleEvent)
qed

theorem unknown_session_noop_witness:
  "sessions idleMachine ''s2'' = None
   \<and> handleEvent idleMachine (event ''s2'' VAD_START DataOther) 1 = idleMachine
   \<and> transitionTo idleMachine ''s2'' LISTENING None 1 = (False, idleMachine)"
proof -
  have unknown: "sessions idleMachine ''s2'' = None"
    by (simp add: scenario_defs Let_def)
  have addressed: "p_session_id (event ''s2'' VAD_START DataOther) = ''s2''"
    by (simp add: event_def)
  from unknown_session_noop [where now = 1 and newState = LISTENING and md = None,
      OF unknown addressed] unknown
  show ?thesis by simp
qed

section \<open>Interrupts\<close>

text \<open>
  C5. A \<open>user_interrupt\<close> handled while the session is in \<open>ANSWERING\<close> or \<open>SPEAKING\<close>
  moves it to \<open>INTERRUPTED\<close>, adds one to the interruption count, and appends one
  transition whose metadata is the state that was interrupted. In any other state it
  writes the activity time and nothing else. So of two interrupts in a row only the
  first appends a transition into \<open>INTERRUPTED\<close>, whether or not the 200 ms timer has
  fired between them.
\<close>

theorem user_interrupt_once:
  assumes "sessions m sid = Some s"
    and "p_session_id p = sid" and "p_event p = USER_INTERRUPT"
  shows "(state s = ANSWERING \<or> state s = SPEAKING \<longrightarrow>
            sessions (handleEvent m p now) sid =
              Some (s\<lparr>last_activity := now, state := INTERRUPTED,
                      state_history := state_history s @
                        [\<lparr>from_state = state s, to_state = INTERRUPTED, t_event = STATE_CHANGE,
                          t_timestamp = now, t_metadata = Some (InterruptedStateMeta (state s))\<rparr>],
                      metrics := (metrics s)
                        \<lparr>interruption_count := interruption_count (metrics s) + 1\<rparr>\<rparr>)
          \<and> map_option state_history (sessions (handleEvent (handleEvent m p now) p now') sid)
              = map_option state_history (sessions (handleEvent m p now) sid)
          \<and> map_option (\<lambda>s'. length (filter (\<lambda>t. to_state t = INTERRUPTED) (state_history s')))
              (sessions (handleEvent (interruptDwellElapsed (handleEvent m p now) sid now') p now'')
                 sid)
              = Some (length (filter (\<lambda>t. to_state t = INTERRUPTED) (state_history s)) + 1))
       \<and> (state s \<noteq> ANSWERING \<and> state s \<noteq> SPEAKING \<longrightarrow>
            handleEvent m p now = updateSession m sid (\<lambda>s. s\<lparr>last_activity := now\<rparr>)
          \<and> sessions (handleEvent m p now) sid = Some (s\<lparr>last_activity := now\<rparr>))"
  using assms by (auto simp: handler_defs)

theorem user_interrupt_once_witness:
  "map_option state (sessions (run idleMachine toSpeaking) ''s1'') = Some SPEAKING
   \<and> map_option (\<lambda>s. (state s, interruption_count (metrics s), map t_metadata (state_history s)))
       (sessions (handleEvent (run idleMachine toSpeaking)
                    (event ''s1'' USER_INTERRUPT DataOther) 6) ''s1'')
     = map_option (\<lambda>s. (INTERRUPTED, interruption_count (metrics s) + 1,
                          map t_metadata (state_history s) @ [Some (InterruptedStateMeta SPEAKING)]))
         (sessions (run idleMachine toSpeaking) ''s1'')"
proof -
  from speaking_session obtain s where s: "sessions (run idleMachine toSpeaking) ''s1'' = Some s"
    and speaking: "state s = SPEAKING"
    by auto
  have addressed: "p_session_id (event ''s1'' USER_INTERRUPT DataOther) = ''s1''"
    and kind: "p_event (event ''s1'' USER_INTERRUPT DataOther) = USER_INTERRUPT"
    by (simp_all add: event_def)
  from user_interrupt_once [where now = 6, OF s addressed kind] s speaking
  show ?thesis by simp
qed

section \<open>End of speech and end of transcription\<close>







section \<open>The synthesis-stream handle\<close>

lemma handle_step:
  assumes "carriesStreamId st" and "sessions m k = Some s"
    and "sessions (applyStep m st) k = Some s'"
    and "state s = SPEAKING \<longrightarrow> tts_stream_id s \<noteq> None"
    and "tts_stream_id s \<noteq> None \<longrightarrow> (\<exists>t \<in> set (state_history s). to_state t = SPEAKING)"
  shows "(state s' = SPEAKING \<longrightarrow> tts_stream_id s' \<noteq> None)
       \<and> (tts_stream_id s' \<noteq> None \<longrightarrow> (\<exists>t \<in> set (state_history s'). to_state t = SPEAKING))"
proof (cases st)
  case (Pair a now)
  show ?thesis
  proof (cases a)
    case (Event payload)
    with Pair assms show ?thesis
      by (cases "p_event payload")
         (auto simp: handler_defs split: option.splits if_splits)
  next
    case (InterruptTimer sid)
    with Pair assms show ?thesis
      by (auto simp: handler_defs split: option.splits if_splits)
  next
    case (ErrorTimer sid)
    with Pair assms show ?thesis
      by (auto simp: handler_defs split: option.splits if_splits)
  next
    case (SetCurrentTurn sid turn)
    with Pair assms show ?thesis
      by (auto simp: handler_defs split: option.splits if_splits)
  qed
qed

lemma handle_run:
  assumes "\<forall>st \<in> set steps. carriesStreamId st" and "sessions m k = Some s"
    and "sessions (run m steps) k = Some s'"
    and "state s = SPEAKING \<longrightarrow> tts_stream_id s \<noteq> None"
    and "tts_stream_id s \<noteq> None \<longrightarrow> (\<exists>t \<in> set (state_history s). to_state t = SPEAKING)"
  shows "(state s' = SPEAKING \<longrightarrow> tts_stream_id s' \<noteq> None)
       \<and> (tts_stream_id s' \<noteq> None \<longrightarrow> (\<exists>t \<in> set (state_history s'). to_state t = SPEAKING))"
  using assms
proof (induction steps arbitrary: m s)
  case Nil
  then show ?case by simp
next
  case (Cons st steps)
  from applyStep_keeps [OF Cons.prems(2)] obtain s1
    where s1: "sessions (applyStep m st) k = Some s1"
    by blast
  from Cons.prems(1) have first: "carriesStreamId st"
    and others: "\<forall>st \<in> set steps. carriesStreamId st"
    by simp_all
  from handle_step [OF first Cons.prems(2) s1 Cons.prems(4) Cons.prems(5)]
  have "state s1 = SPEAKING \<longrightarrow> tts_stream_id s1 \<noteq> None"
    and "tts_stream_id s1 \<noteq> None \<longrightarrow> (\<exists>t \<in> set (state_history s1). to_state t = SPEAKING)"
    by simp_all
  from Cons.IH [OF others s1 _ this] Cons.prems(3)
  show ?case by simp
qed

text \<open>
  C4, as the code has it. Take a session from its creation through any sequence of
  events, timer callbacks and turn assignments in which every \<open>tts_start\<close> carries a
  stream id. Whenever its state is \<open>SPEAKING\<close> the handle is present, and a handle is
  present only in a session that has entered \<open>SPEAKING\<close> at some time. From \<open>SPEAKING\<close>,
  \<open>tts_complete\<close> leaves the session in \<open>IDLE\<close> without a handle, and \<open>user_interrupt\<close>
  leaves it in \<open>INTERRUPTED\<close> with the handle it had.
\<close>

theorem tts_stream_id_lifetime:
  assumes "\<forall>st \<in> set steps. carriesStreamId st"
    and "sessions (run (snd (createSession m0 cfg sid t0)) steps) sid = Some s"
  shows "(state s = SPEAKING \<longrightarrow> tts_stream_id s \<noteq> None)
       \<and> (tts_stream_id s \<noteq> None \<longrightarrow> (\<exists>t \<in> set (state_history s). to_state t = SPEAKING))
       \<and> (state s = SPEAKING \<longrightarrow>
            map_option (\<lambda>s'. (state s', tts_stream_id s'))
              (sessions (handleEvent (run (snd (createSession m0 cfg sid t0)) steps)
                           (event sid TTS_COMPLETE d) now) sid) = Some (IDLE, None)
          \<and> map_option (\<lambda>s'. (state s', tts_stream_id s'))
              (sessions (handleEvent (run (snd (createSession m0 cfg sid t0)) steps)
                           (event sid USER_INTERRUPT d) now) sid)
              = Some (INTERRUPTED, tts_stream_id s))"
proof -
  have created: "sessions (snd (createSession m0 cfg sid t0)) sid
      = Some (fst (createSession m0 cfg sid t0))"
    by (simp add: createSession_def Let_def)
  have fresh: "state (fst (createSession m0 cfg sid t0)) = IDLE"
    "tts_stream_id (fst (createSession m0 cfg sid t0)) = None"
    by (simp_all add: createSession_def Let_def)
  from handle_run [OF assms(1) created assms(2)] fresh
  have inv: "(state s = SPEAKING \<longrightarrow> tts_stream_id s \<noteq> None)
       \<and> (tts_stream_id s \<noteq> None \<longrightarrow> (\<exists>t \<in> set (state_history s). to_state t = SPEAKING))"
    by simp
  from assms(2) have "state s = SPEAKING \<longrightarrow>
      map_option (\<lambda>s'. (state s', tts_stream_id s'))
        (sessions (handleEvent (run (snd (createSession m0 cfg sid t0)) steps)
                     (event sid TTS_COMPLETE d) now) sid) = Some (IDLE, None)
    \<and> map_option (\<lambda>s'. (state s', tts_stream_id s'))
        (sessions (handleEvent (run (snd (createSession m0 cfg sid t0)) steps)
                     (event sid USER_INTERRUPT d) now) sid)
        = Some (INTERRUPTED, tts_stream_id s)"
    by (auto simp: handler_defs event_def split: option.splits)
  with inv show ?thesis by blast
qed

theorem tts_stream_id_lifetime_witness:
  "map_option state (sessions (run idleMachine toSpeaking) ''s1'') = Some SPEAKING
   \<and> map_option tts_stream_id (sessions (run idleMachine toSpeaking) ''s1'') \<noteq> Some None
   \<and> map_option state
       (sessions (handleEvent (run idleMachine toSpeaking)
                    (event ''s1'' TTS_COMPLETE DataOther) 6) ''s1'') = Some IDLE
   \<and> map_option tts_stream_id
       (sessions (handleEvent (run idleMachine toSpeaking)
                    (event ''s1'' TTS_COMPLETE DataOther) 6) ''s1'') = Some None"
proof -
  have carried: "\<forall>st \<in> set toSpeaking. carriesStreamId st"
    by (simp add: scenario_defs)
  from speaking_session obtain s
    where s: "sessions (run (snd (createSession newMachine testConfig ''s1'' 0)) toSpeaking) ''s1''
                = Some s"
    and speaking: "state s = SPEAKING"
    by (auto simp: idleMachine_def)
  from tts_stream_id_lifetime [where d = DataOther and now = 6, OF carried s] s speaking
  have "tts_stream_id s \<noteq> None"
    and "map_option (\<lambda>s'. (state s', tts_stream_id s'))
           (sessions (handleEvent (run idleMachine toSpeaking)
                        (event ''s1'' TTS_COMPLETE DataOther) 6) ''s1'') = Some (IDLE, None)"
    by (simp_all add: idleMachine_def)
  with s speaking show ?thesis
    by (auto simp: idleMachine_def)
qed

text \<open>
  C4 as stated fails in both directions. After \<open>llm_response_complete\<close> the session is
  in \<open>ANSWERING\<close> and has no handle yet; after a barge-in during \<open>SPEAKING\<close> it is in
  \<open>INTERRUPTED\<close> and still has the handle of the stream that was cut.
\<close>

theorem tts_stream_id_counterexample:
  "map_option state (sessions (run idleMachine toAnswering) ''s1'') = Some ANSWERING
   \<and> map_option tts_stream_id (sessions (run idleMachine toAnswering) ''s1'') = Some None
   \<and> map_option state (sessions (run idleMachine bargeIn) ''s1'') = Some INTERRUPTED
   \<and> map_option tts_stream_id (sessions (run idleMachine bargeIn) ''s1'')
       = Some (Some ''stream-123'')"
  by (simp add: scenario_defs handler_defs)

section \<open>Completed turns\<close>

lemma turns_step:
  assumes "sessions m k = Some s" and "sessions (applyStep m st) k = Some s'"
    and "total_turns (metrics s) \<le> length (filter speakingToIdle (state_history s))"
    and "total_turns (metrics s) = length (conversation_history s)"
  shows "total_turns (metrics s') \<le> length (filter speakingToIdle (state_history s'))
       \<and> total_turns (metrics s') = length (conversation_history s')"
proof (cases st)
  case (Pair a now)
  show ?thesis
  proof (cases a)
    case (Event payload)
    with Pair assms show ?thesis
      by (cases "p_event payload")
         (auto simp: handler_defs speakingToIdle_def split: option.splits if_splits)
  next
    case (InterruptTimer sid)
    with Pair assms show ?thesis
      by (auto simp: handler_defs speakingToIdle_def split: option.splits if_splits)
  next
    case (ErrorTimer sid)
    with Pair assms show ?thesis
      by (auto simp: handler_defs speakingToIdle_def split: option.splits if_splits)
  next
    case (SetCurrentTurn sid turn)
    with Pair assms show ?thesis
      by (auto simp: handler_defs speakingToIdle_def split: option.splits if_splits)
  qed
qed

lemma turns_run:
  assumes "sessions m k = Some s" and "sessions (run m steps) k = Some s'"
    and "total_turns (metrics s) \<le> length (filter speakingToIdle (state_history s))"
    and "total_turns (metrics s) = length (conversation_history s)"
  shows "total_turns (metrics s') \<le> length (filter speakingToIdle (state_history s'))
       \<and> total_turns (metrics s') = length (conversation_history s')"
  using assms
proof (induction steps arbitrary: m s)
  case Nil
  then show ?case by simp
next
  case (Cons st steps)
  from applyStep_keeps [OF Cons.prems(1)] obtain s1
    where s1: "sessions (applyStep m st) k = Some s1"
    by blast
  from turns_step [OF Cons.prems(1) s1 Cons.prems(3) Cons.prems(4)]
  have "total_turns (metrics s1) \<le> length (filter speakingToIdle (state_history s1))"
    and "total_turns (metrics s1) = length (conversation_history s1)"
    by simp_all
  from Cons.IH [OF s1 _ this] Cons.prems(2)
  show ?case by simp
qed

text \<open>
  C6, as the code has it. For a session taken from its creation through any sequence of
  events, timer callbacks and turn assignments, \<open>total_turns\<close> is the length of the
  conversation history and is at most the number of \<open>SPEAKING\<close> to \<open>IDLE\<close> transitions in
  the state history. A \<open>tts_complete\<close> handled in \<open>SPEAKING\<close> appends that transition and
  clears the transcript buffer, the pending response and the handle; it appends the turn
  and adds one to \<open>total_turns\<close> when the session has a current turn, and leaves both as
  they were when it has none.
\<close>

theorem total_turns_bounded:
  assumes "sessions (run (snd (createSession m0 cfg sid t0)) steps) sid = Some s"
  shows "total_turns (metrics s) \<le> length (filter speakingToIdle (state_history s))
       \<and> total_turns (metrics s) = length (conversation_history s)
       \<and> (state s = SPEAKING \<longrightarrow>
            sessions (handleEvent (run (snd (createSession m0 cfg sid t0)) steps)
                        (event sid TTS_COMPLETE d) now) sid =
              Some (s\<lparr>last_activity := now, state := IDLE,
                      state_history := state_history s @
                        [\<lparr>from_state = SPEAKING, to_state = IDLE, t_event = STATE_CHANGE,
                          t_timestamp = now, t_metadata = None\<rparr>],
                      conversation_history := conversation_history s @
                        (case current_turn s of None \<Rightarrow> [] | Some turn \<Rightarrow> [turn]),
                      metrics := (metrics s)\<lparr>total_turns := total_turns (metrics s) +
                        (case current_turn s of None \<Rightarrow> 0 | Some turn \<Rightarrow> 1)\<rparr>,
                      current_turn := None, transcript_buffer := [],
                      pending_response := None, tts_stream_id := None\<rparr>))"
proof -
  have created: "sessions (snd (createSession m0 cfg sid t0)) sid
      = Some (fst (createSession m0 cfg sid t0))"
    by (simp add: createSession_def Let_def)
  have fresh: "total_turns (metrics (fst (createSession m0 cfg sid t0))) = 0"
    "conversation_history (fst (createSession m0 cfg sid t0)) = []"
    by (simp_all add: createSession_def Let_def)
  from turns_run [OF created assms] fresh
  have inv: "total_turns (metrics s) \<le> length (filter speakingToIdle (state_history s))
       \<and> total_turns (metrics s) = length (conversation_history s)"
    by simp
  from assms have "state s = SPEAKING \<longrightarrow>
      sessions (handleEvent (run (snd (createSession m0 cfg sid t0)) steps)
                  (event sid TTS_COMPLETE d) now) sid =
        Some (s\<lparr>last_activity := now, state := IDLE,
                state_history := state_history s @
                  [\<lparr>from_state = SPEAKING, to_state = IDLE, t_event = STATE_CHANGE,
                    t_timestamp = now, t_metadata = None\<rparr>],
                conversation_history := conversation_history s @
                  (case current_turn s of None \<Rightarrow> [] | Some turn \<Rightarrow> [turn]),
                metrics := (metrics s)\<lparr>total_turns := total_turns (metrics s) +
                  (case current_turn s of None \<Rightarrow> 0 | Some turn \<Rightarrow> 1)\<rparr>,
                current_turn := None, transcript_buffer := [],
                pending_response := None, tts_stream_id := None\<rparr>)"
    by (auto simp: handler_defs event_def split: option.splits)
  with inv show ?thesis by blast
qed

theorem total_turns_bounded_witness:
  "map_option (\<lambda>s. total_turns (metrics s)) (sessions (run idleMachine recordedTurn) ''s1'')
     = Some 1
   \<and> map_option (\<lambda>s. length (filter speakingToIdle (state_history s)))
       (sessions (run idleMachine recordedTurn) ''s1'') = Some 1
   \<and> map_option (\<lambda>s. length (conversation_history s))
       (sessions (run idleMachine recordedTurn) ''s1'') = Some 1"
proof -
  have turns: "map_option (\<lambda>s. total_turns (metrics s))
      (sessions (run idleMachine recordedTurn) ''s1'') = Some 1"
    by (simp add: scenario_defs handler_defs)
  then obtain s
    where s: "sessions (run (snd (createSession newMachine testConfig ''s1'' 0)) recordedTurn) ''s1''
                = Some s"
    and one: "total_turns (metrics s) = 1"
    by (auto simp: idleMachine_def)
  have upper: "length (filter speakingToIdle (state_history s)) \<le> 1"
    using s by (auto simp: scenario_defs handler_defs speakingToIdle_def)
  from total_turns_bounded [where d = DataOther and now = 8, OF s]
  have "total_turns (metrics s) \<le> length (filter speakingToIdle (state_history s))"
    and "total_turns (metrics s) = length (conversation_history s)"
    by blast+
  with upper one have "length (filter speakingToIdle (state_history s)) = 1"
    and "length (conversation_history s) = 1"
    by simp_all
  with one s show ?thesis
    by (simp add: idleMachine_def)
qed

text \<open>
  C6 as stated fails: when events alone drive a turn, no current turn is assigned before
  \<open>tts_complete\<close>, so the state history gains a \<open>SPEAKING\<close> to \<open>IDLE\<close> transition while
  \<open>total_turns\<close> stays 0.
\<close>

theorem total_turns_counterexample:
  "map_option state (sessions (run idleMachine fullTurn) ''s1'') = Some IDLE
   \<and> map_option (\<lambda>s. total_turns (metrics s)) (sessions (run idleMachine fullTurn) ''s1'')
       = Some 0
   \<and> map_option (\<lambda>s. length (filter speakingToIdle (state_history s)))
       (sessions (run idleMachine fullTurn) ''s1'') = Some 1"
  by (simp add: scenario_defs handler_defs speakingToIdle_def)

section \<open>The reasoning request\<close>

lemma pushTurns_concat: "pushTurns msgs turns = msgs @ concat (map turnMessages turns)"
  by (induction turns arbitrary: msgs) (simp_all add: turnMessages_def)

lemma slice_last: "0 < k \<Longrightarrow> slice xs (- k) = drop (length xs - nat k) xs"
  by (auto simp: slice_def Let_def max_def nat_diff_distrib')

lemma roles_turnMessages:
  "map role (concat (map turnMessages turns))
     = concat (replicate (length turns) [''user'', ''assistant''])"
  by (induction turns) (simp_all add: turnMessages_def)

text \<open>
  C8. The messages of the reasoning request are the last five turns of the conversation
  history, or all of them when there are fewer, in the order of the history, each as a
  user message followed by an assistant message, and then the new user text as a user
  message.
\<close>

theorem llm_request_last_five:
  "messages (getLLMResponse_request session userText) =
     concat (map turnMessages
       (drop (length (conversation_history session) - 5) (conversation_history session)))
     @ [\<lparr>role = ''user'', content = userText\<rparr>]
   \<and> length (drop (length (conversation_history session) - 5) (conversation_history session))
       = min 5 (length (conversation_history session))
   \<and> map role (messages (getLLMResponse_request session userText)) =
       concat (replicate (min 5 (length (conversation_history session)))
         [''user'', ''assistant'']) @ [''user'']"
proof -
  have recent: "slice (conversation_history session) (- 5)
      = drop (length (conversation_history session) - 5) (conversation_history session)"
    using slice_last [of 5 "conversation_history session"] by simp
  have msgs: "messages (getLLMResponse_request session userText) =
      concat (map turnMessages
        (drop (length (conversation_history session) - 5) (conversation_history session)))
      @ [\<lparr>role = ''user'', content = userText\<rparr>]"
    by (simp add: getLLMResponse_request_def Let_def recent pushTurns_concat)
  have len: "length (drop (length (conversation_history session) - 5)
      (conversation_history session)) = min 5 (length (conversation_history session))"
    by simp
  from msgs len show ?thesis
    by (simp add: roles_turnMessages)
qed

section \<open>Voice activity detection\<close>

lemma twos_complement16:
  fixes k :: int
  assumes "0 \<le> k" and "k < 2 ^ 16"
  shows "(if k < 2 ^ 15 then k else k - 2 ^ 16) = signed_take_bit 15 k"
proof -
  have shifted: "signed_take_bit 15 k = (k + 32768) mod 65536 - 32768"
    by (simp add: signed_take_bit_eq_take_bit_shift take_bit_eq_mod)
  show ?thesis
  proof (cases "k < 32768")
    case True
    with assms have "(k + 32768) mod 65536 = k + 32768"
      by (intro mod_pos_pos_trivial) simp_all
    with True shifted show ?thesis
      by simp
  next
    case False
    have "k + 32768 = k - 32768 + 65536"
      by simp
    then have "(k + 32768) mod 65536 = (k - 32768 + 65536) mod 65536"
      by (rule arg_cong)
    also have "\<dots> = (k - 32768) mod 65536"
      by (simp only: mod_add_self2)
    also from False assms have "\<dots> = k - 32768"
      by (intro mod_pos_pos_trivial) simp_all
    finally show ?thesis
      using False shifted by simp
  qed
qed

text \<open>The decoder of the code is two's complement on sixteen bits.\<close>

lemma readInt16LE_signed:
  "readInt16LE lo hi = signed_take_bit 15 (uint lo + uint hi * 2 ^ 8)"
proof -
  have "uint hi < 2 ^ 8" "uint lo < 2 ^ 8" "0 \<le> uint hi" "0 \<le> uint lo"
    using uint_bounded [of hi] uint_bounded [of lo] by simp_all
  then have "0 \<le> uint lo + uint hi * 2 ^ 8" and "uint lo + uint hi * 2 ^ 8 < 2 ^ 16"
    by simp_all
  then show ?thesis
    unfolding readInt16LE_def Let_def by (rule twos_complement16)
qed

lemma readInt16LE_values:
  "readInt16LE 0 128 = - 32768" "readInt16LE 255 255 = - 1" "readInt16LE 255 127 = 32767"
  "readInt16LE 0 64 = 16384"
  by (simp_all add: readInt16LE_def)

lemma sumSquares_even:
  "even (length data) \<Longrightarrow>
     sumSquares fl data acc =
       Inr (foldl (\<lambda>acc x. f_add fl acc (normalizedSquare fl x)) acc (samplesOf data))"
proof (induction data arbitrary: acc rule: samplesOf.induct)
  case (1 lo hi rest)
  from "1.prems" have "even (length rest)"
    by simp
  from "1.IH" [OF this] show ?case
    by (simp add: Let_def normalizedSquare_def readInt16LE_signed)
qed simp_all

lemma length_samplesOf: "even (length data) \<Longrightarrow> 2 * length (samplesOf data) = length data"
  by (induction data rule: samplesOf.induct) simp_all

lemma calculateRMSEnergy_even:
  assumes "even (length data)"
  shows "calculateRMSEnergy fl data = Inr (rmsEnergy fl (samplesOf data))"
  using assms
  by (simp add: calculateRMSEnergy_def rmsEnergy_def sumSquares_even length_samplesOf Let_def)

lemma odd_frame_throws: "odd (length data) \<Longrightarrow> calculateRMSEnergy fl data = Inl RangeError"
proof -
  have "odd (length data) \<Longrightarrow> sumSquares fl data acc = Inl RangeError" for acc
    by (induction data arbitrary: acc rule: samplesOf.induct) (simp_all add: Let_def)
  then show "odd (length data) \<Longrightarrow> calculateRMSEnergy fl data = Inl RangeError"
    by (simp add: calculateRMSEnergy_def)
qed

lemma numberGt_irrefl: "\<not> numberGt x x"
  by (cases x) simp_all

lemma performVAD_error:
  "calculateRMSEnergy fl data = Inl e \<Longrightarrow> performVAD fl h sid data now = (Some e, h)"
  by (simp add: performVAD_def)

lemma performVAD_silence:
  assumes "calculateRMSEnergy fl data = Inr energy"
    and "\<not> numberGt energy (vadThreshold h)"
  shows "performVAD fl h sid data now =
     (None, if audioStreams h sid \<noteq> None \<and> silenceTimers h sid = None
            then h\<lparr>silenceTimers := (silenceTimers h)(sid \<mapsto> silenceThreshold h)\<rparr>
            else h)"
  using assms by (simp add: performVAD_def)

lemma performVAD_speech:
  assumes "calculateRMSEnergy fl data = Inr energy"
    and "numberGt energy (vadThreshold h)"
  shows "performVAD fl h sid data now =
     (None, if audioStreams h sid = None
            then h\<lparr>silenceTimers := (silenceTimers h)(sid := None),
                   audioStreams := (audioStreams h)(sid \<mapsto> now),
                   w_emitted := w_emitted h @ [EmitVadStart sid]\<rparr>
            else h\<lparr>silenceTimers := (silenceTimers h)(sid := None)\<rparr>)"
proof (cases "silenceTimers h sid")
  case None
  then have "(silenceTimers h)(sid := None) = silenceTimers h"
    by (simp add: fun_upd_idem)
  with None assms show ?thesis
    by (simp add: performVAD_def Let_def)
next
  case (Some timer)
  with assms show ?thesis
    by (simp add: performVAD_def Let_def)
qed

lemma halfFrame_computed: "calculateRMSEnergy exactArith halfFrame = Inr (Finite (1 / 2))"
proof -
  have "sqrt (1 / 4) = 1 / 2"
    by (simp add: real_sqrt_divide)
  then show ?thesis
    by (simp add: calculateRMSEnergy_def halfFrame_def exactArith_def readInt16LE_values)
qed

lemma quietFrame_computed: "calculateRMSEnergy exactArith quietFrame = Inr (Finite 0)"
  by (simp add: calculateRMSEnergy_def quietFrame_def exactArith_def readInt16LE_def)

text \<open>
  C7. For a frame of whole samples, the energy that \<open>calculateRMSEnergy\<close> returns is the
  square root of the mean of the squares of the samples over 32768, the samples being the
  frame's sixteen-bit words in two's complement and each operation the runtime's own. The
  frame counts as speech when that energy is greater than the threshold. At an energy
  that is not greater, and so at one equal to the threshold, \<open>performVAD\<close> emits nothing
  and leaves the speaking mark alone; it arms the silence timer when the session is
  marked speaking and has no timer pending. At a greater energy the session ends up
  marked speaking with no timer pending, and \<open>vad_start\<close> is emitted when it was not
  marked before.
\<close>

theorem vad_energy_threshold:
  assumes "even (length data)"
  shows "calculateRMSEnergy fl data = Inr (rmsEnergy fl (samplesOf data))
       \<and> (\<not> numberGt (rmsEnergy fl (samplesOf data)) (vadThreshold h) \<longrightarrow>
            performVAD fl h sid data now =
              (None, if audioStreams h sid \<noteq> None \<and> silenceTimers h sid = None
                     then h\<lparr>silenceTimers := (silenceTimers h)(sid \<mapsto> silenceThreshold h)\<rparr>
                     else h))
       \<and> (rmsEnergy fl (samplesOf data) = vadThreshold h \<longrightarrow>
            performVAD fl h sid data now =
              (None, if audioStreams h sid \<noteq> None \<and> silenceTimers h sid = None
                     then h\<lparr>silenceTimers := (silenceTimers h)(sid \<mapsto> silenceThreshold h)\<rparr>
                     else h))
       \<and> (numberGt (rmsEnergy fl (samplesOf data)) (vadThreshold h) \<longrightarrow>
            fst (performVAD fl h sid data now) = None
          \<and> silenceTimers (snd (performVAD fl h sid data now)) sid = None
          \<and> audioStreams (snd (performVAD fl h sid data now)) sid \<noteq> None
          \<and> w_emitted (snd (performVAD fl h sid data now)) =
              w_emitted h @ (if audioStreams h sid = None then [EmitVadStart sid] else []))"
proof -
  note energy = calculateRMSEnergy_even [OF assms, of fl]
  have silent: "\<not> numberGt (rmsEnergy fl (samplesOf data)) (vadThreshold h) \<longrightarrow>
      performVAD fl h sid data now =
        (None, if audioStreams h sid \<noteq> None \<and> silenceTimers h sid = None
               then h\<lparr>silenceTimers := (silenceTimers h)(sid \<mapsto> silenceThreshold h)\<rparr>
               else h)"
    using performVAD_silence [OF energy] by blast
  have equal: "rmsEnergy fl (samplesOf data) = vadThreshold h \<longrightarrow>
      \<not> numberGt (rmsEnergy fl (samplesOf data)) (vadThreshold h)"
    by (simp add: numberGt_irrefl)
  have loud: "numberGt (rmsEnergy fl (samplesOf data)) (vadThreshold h) \<longrightarrow>
        fst (performVAD fl h sid data now) = None
      \<and> silenceTimers (snd (performVAD fl h sid data now)) sid = None
      \<and> audioStreams (snd (performVAD fl h sid data now)) sid \<noteq> None
      \<and> w_emitted (snd (performVAD fl h sid data now)) =
          w_emitted h @ (if audioStreams h sid = None then [EmitVadStart sid] else [])"
    using performVAD_speech [OF energy, of h sid now] by simp
  from energy silent equal loud show ?thesis
    by blast
qed

theorem vad_energy_threshold_witness:
  "even (length halfFrame)
   \<and> samplesOf halfFrame = [16384, 16384]
   \<and> calculateRMSEnergy exactArith halfFrame = Inr (Finite (1 / 2))
   \<and> vadThreshold halfHandler = Finite (1 / 2)
   \<and> performVAD exactArith halfHandler ''s1'' halfFrame 1 = (None, halfHandler)
   \<and> performVAD exactArith (halfHandler\<lparr>audioStreams := [''s1'' \<mapsto> 0]\<rparr>) ''s1'' halfFrame 1 =
       (None, halfHandler\<lparr>audioStreams := [''s1'' \<mapsto> 0], silenceTimers := [''s1'' \<mapsto> 1000]\<rparr>)"
proof -
  have whole: "even (length halfFrame)"
    by (simp add: halfFrame_def)
  have decoded: "samplesOf halfFrame = [16384, 16384]"
    using readInt16LE_signed [of 0 64] by (simp add: halfFrame_def readInt16LE_values)
  have threshold: "vadThreshold halfHandler = Finite (1 / 2)"
    and unmarked: "audioStreams halfHandler ''s1'' = None"
    and no_timer: "silenceTimers halfHandler ''s1'' = None"
    and window: "silenceThreshold halfHandler = 1000"
    by (simp_all add: halfHandler_def configureVAD_def newHandler_def)
  note unmarked_case = vad_energy_threshold [where fl = exactArith and h = halfHandler
      and sid = "''s1''" and now = 1, OF whole]
  note marked_case = vad_energy_threshold [where fl = exactArith
      and h = "halfHandler\<lparr>audioStreams := [''s1'' \<mapsto> 0]\<rparr>"
      and sid = "''s1''" and now = 1, OF whole]
  from unmarked_case halfFrame_computed
  have energy: "rmsEnergy exactArith (samplesOf halfFrame) = Finite (1 / 2)"
    by simp
  from unmarked_case energy threshold
  have "performVAD exactArith halfHandler ''s1'' halfFrame 1 =
      (None, if audioStreams halfHandler ''s1'' \<noteq> None \<and> silenceTimers halfHandler ''s1'' = None
             then halfHandler\<lparr>silenceTimers :=
                    (silenceTimers halfHandler)(''s1'' \<mapsto> silenceThreshold halfHandler)\<rparr>
             else halfHandler)"
    by (simp only: simp_thms)
  with unmarked have first: "performVAD exactArith halfHandler ''s1'' halfFrame 1
      = (None, halfHandler)"
    by simp
  from marked_case energy threshold
  have "performVAD exactArith (halfHandler\<lparr>audioStreams := [''s1'' \<mapsto> 0]\<rparr>) ''s1'' halfFrame 1 =
      (None, halfHandler\<lparr>audioStreams := [''s1'' \<mapsto> 0],
                silenceTimers := (silenceTimers halfHandler)(''s1'' \<mapsto> 1000)\<rparr>)"
    by (simp add: no_timer window)
  moreover have "(silenceTimers halfHandler)(''s1'' \<mapsto> 1000) = [''s1'' \<mapsto> 1000]"
    by (simp add: halfHandler_def configureVAD_def newHandler_def)
  ultimately have second:
    "performVAD exactArith (halfHandler\<lparr>audioStreams := [''s1'' \<mapsto> 0]\<rparr>) ''s1'' halfFrame 1 =
      (None, halfHandler\<lparr>audioStreams := [''s1'' \<mapsto> 0], silenceTimers := [''s1'' \<mapsto> 1000]\<rparr>)"
    by simp
  from whole decoded halfFrame_computed threshold first second show ?thesis
    by simp
qed

lemma alternatesPerConnection_snoc:
  "alternatesPerConnection sid b (es @ [e]) =
     (alternatesPerConnection sid b es
      \<and> (e = EmitVadStart sid \<longrightarrow> \<not> speakingAfter sid b es)
      \<and> (e = EmitVadEnd sid \<longrightarrow> speakingAfter sid b es))"
proof (induction es arbitrary: b)
  case Nil
  show ?case by (cases b) simp_all
next
  case (Cons a es)
  show ?case by (simp add: Cons.IH)
qed

lemma speakingAfter_snoc:
  "speakingAfter sid b (es @ [e]) =
     (if e = EmitVadStart sid then True
      else if e = EmitVadEnd sid \<or> e = EmitDisconnected sid then False
      else speakingAfter sid b es)"
proof (induction es arbitrary: b)
  case Nil
  show ?case by simp
next
  case (Cons a es)
  show ?case
    using Cons.IH
    by (cases "e = EmitVadStart sid"; cases "e = EmitVadEnd sid";
        cases "e = EmitDisconnected sid") simp_all
qed

lemma alternates_connected:
  "EmitDisconnected sid \<notin> set es \<Longrightarrow>
     alternates sid b es = alternatesPerConnection sid b es"
proof (induction es arbitrary: b)
  case Nil
  show ?case by simp
next
  case (Cons a es)
  from Cons.prems have "a \<noteq> EmitDisconnected sid" and "EmitDisconnected sid \<notin> set es"
    by auto
  with Cons.IH show ?case
    by simp
qed

lemma vadInvariant_performVAD:
  assumes "vadInvariant sid h"
  shows "vadInvariant sid (snd (performVAD fl h sid' data now))"
proof (cases "calculateRMSEnergy fl data")
  case (Inl e)
  with assms show ?thesis
    by (simp add: performVAD_error)
next
  case (Inr energy)
  show ?thesis
  proof (cases "numberGt energy (vadThreshold h)")
    case True
    from assms show ?thesis
      unfolding performVAD_speech [OF Inr True]
      by (simp add: vadInvariant_def alternatesPerConnection_snoc speakingAfter_snoc)
  next
    case False
    from assms show ?thesis
      unfolding performVAD_silence [OF Inr False]
      by (simp add: vadInvariant_def)
  qed
qed

lemma vadInvariant_step:
  "vadInvariant sid h \<Longrightarrow> vadInvariant sid (snd (vadStep fl h st))"
proof (cases st)
  case (Pair a now)
  assume inv: "vadInvariant sid h"
  show ?thesis
  proof (cases a)
    case (Connect sid')
    with Pair inv show ?thesis
      by (simp add: vadInvariant_def handleConnection_def)
  next
    case (Frame sid' data)
    from inv have "vadInvariant sid
        (h\<lparr>w_emitted := w_emitted h @ [EmitUserAudio sid'
             \<lparr>chunk_data = data, chunk_timestamp = now, sampleRate = 16000, channels = 1\<rparr>]\<rparr>)"
      by (simp add: vadInvariant_def alternatesPerConnection_snoc speakingAfter_snoc)
    from vadInvariant_performVAD [OF this] Pair Frame show ?thesis
      by (simp add: handleAudioData_def Let_def)
  next
    case (SilenceTimer sid')
    show ?thesis
    proof (cases "silenceTimers h sid'")
      case None
      with Pair SilenceTimer inv show ?thesis
        by (simp add: silenceElapsed_def)
    next
      case (Some timer)
      with Pair SilenceTimer inv show ?thesis
        by (cases "sid' = sid")
           (auto simp: vadInvariant_def silenceElapsed_def alternatesPerConnection_snoc
              speakingAfter_snoc)
    qed
  next
    case (Disconnect sid')
    with Pair inv show ?thesis
      by (cases "sid' = sid"; cases "silenceTimers h sid'")
         (auto simp: vadInvariant_def handleDisconnect_def Let_def
            alternatesPerConnection_snoc speakingAfter_snoc)
  next
    case (Configure threshold silenceMs)
    with Pair inv show ?thesis
      by (simp add: vadInvariant_def configureVAD_def)
  qed
qed

lemma vadInvariant_run:
  "vadInvariant sid h \<Longrightarrow> vadInvariant sid (snd (runVAD fl h steps))"
proof (induction steps arbitrary: h)
  case Nil
  then show ?case by simp
next
  case (Cons st steps)
  from vadInvariant_step [OF Cons.prems] have next_inv: "vadInvariant sid (snd (vadStep fl h st))" .
  show ?case
  proof (cases "vadStep fl h st")
    case (Pair err h')
    with next_inv Cons.IH [of h'] show ?thesis
      by (cases err) simp_all
  qed
qed

text \<open>Only the closing of a session's connection emits its \<open>disconnected\<close>.\<close>

lemma connected_performVAD:
  "EmitDisconnected sid \<notin> set (w_emitted h) \<Longrightarrow>
     EmitDisconnected sid \<notin> set (w_emitted (snd (performVAD fl h sid' data now)))"
proof (cases "calculateRMSEnergy fl data")
  case (Inl e)
  assume "EmitDisconnected sid \<notin> set (w_emitted h)"
  with Inl show ?thesis
    by (simp add: performVAD_error)
next
  case (Inr energy)
  assume connected: "EmitDisconnected sid \<notin> set (w_emitted h)"
  show ?thesis
  proof (cases "numberGt energy (vadThreshold h)")
    case True
    from connected show ?thesis
      unfolding performVAD_speech [OF Inr True] by simp
  next
    case False
    from connected show ?thesis
      unfolding performVAD_silence [OF Inr False] by simp
  qed
qed

lemma connected_step:
  assumes "fst st \<noteq> Disconnect sid" and "EmitDisconnected sid \<notin> set (w_emitted h)"
  shows "EmitDisconnected sid \<notin> set (w_emitted (snd (vadStep fl h st)))"
proof (cases st)
  case (Pair a now)
  show ?thesis
  proof (cases a)
    case (Connect sid')
    with Pair assms show ?thesis
      by (simp add: handleConnection_def)
  next
    case (Frame sid' data)
    from assms(2) have "EmitDisconnected sid \<notin> set (w_emitted
        (h\<lparr>w_emitted := w_emitted h @ [EmitUserAudio sid'
             \<lparr>chunk_data = data, chunk_timestamp = now, sampleRate = 16000, channels = 1\<rparr>]\<rparr>))"
      by simp
    from connected_performVAD [OF this] Pair Frame show ?thesis
      by (simp add: handleAudioData_def Let_def)
  next
    case (SilenceTimer sid')
    with Pair assms show ?thesis
      by (cases "silenceTimers h sid'") (simp_all add: silenceElapsed_def)
  next
    case (Disconnect sid')
    with Pair assms show ?thesis
      by (cases "silenceTimers h sid'") (simp_all add: handleDisconnect_def Let_def)
  next
    case (Configure threshold silenceMs)
    with Pair assms show ?thesis
      by (simp add: configureVAD_def)
  qed
qed

lemma connected_run:
  assumes "\<forall>st \<in> set steps. fst st \<noteq> Disconnect sid"
    and "EmitDisconnected sid \<notin> set (w_emitted h)"
  shows "EmitDisconnected sid \<notin> set (w_emitted (snd (runVAD fl h steps)))"
  using assms
proof (induction steps arbitrary: h)
  case Nil
  then show ?case by simp
next
  case (Cons st steps)
  from Cons.prems have first: "fst st \<noteq> Disconnect sid"
    and others: "\<forall>st \<in> set steps. fst st \<noteq> Disconnect sid"
    by simp_all
  from connected_step [OF first Cons.prems(2)]
  have next_connected: "EmitDisconnected sid \<notin> set (w_emitted (snd (vadStep fl h st)))" .
  show ?case
  proof (cases "vadStep fl h st")
    case (Pair err h')
    with next_connected Cons.IH [OF others, of h'] show ?thesis
      by (cases err) simp_all
  qed
qed

text \<open>
  C10, as the code has it. Start from a new handler and let it take any sequence of
  connections, frames, reconfigurations, firings of silence timers and disconnections,
  for any sessions. In what it has emitted, the \<open>vad_start\<close> and \<open>vad_end\<close> events of a
  session alternate within each connection, beginning with a start: a disconnection
  removes the speaking mark and emits no end. The session is marked speaking exactly when
  the last of these events is a start, and a silence timer is pending only while the
  session is marked speaking. When the session's connection is never closed during the
  run, the two events alternate strictly over the whole run. A frame whose energy is
  greater than the threshold leaves no silence timer pending for its session.
\<close>

theorem vad_events_alternate_per_connection:
  "alternatesPerConnection sid False (w_emitted (snd (runVAD fl newHandler steps)))
   \<and> speakingAfter sid False (w_emitted (snd (runVAD fl newHandler steps)))
       = (audioStreams (snd (runVAD fl newHandler steps)) sid \<noteq> None)
   \<and> (silenceTimers (snd (runVAD fl newHandler steps)) sid \<noteq> None \<longrightarrow>
        audioStreams (snd (runVAD fl newHandler steps)) sid \<noteq> None)
   \<and> ((\<forall>st \<in> set steps. fst st \<noteq> Disconnect sid) \<longrightarrow>
        alternates sid False (w_emitted (snd (runVAD fl newHandler steps))))
   \<and> (calculateRMSEnergy fl data = Inr e \<and> numberGt e (vadThreshold h) \<longrightarrow>
        silenceTimers (snd (performVAD fl h sid data now)) sid = None)"
proof -
  have "vadInvariant sid newHandler"
    by (simp add: vadInvariant_def newHandler_def)
  from vadInvariant_run [OF this, of fl steps]
  have inv: "alternatesPerConnection sid False (w_emitted (snd (runVAD fl newHandler steps)))
      \<and> speakingAfter sid False (w_emitted (snd (runVAD fl newHandler steps)))
          = (audioStreams (snd (runVAD fl newHandler steps)) sid \<noteq> None)
      \<and> (silenceTimers (snd (runVAD fl newHandler steps)) sid \<noteq> None \<longrightarrow>
           audioStreams (snd (runVAD fl newHandler steps)) sid \<noteq> None)"
    by (simp add: vadInvariant_def)
  have strict: "(\<forall>st \<in> set steps. fst st \<noteq> Disconnect sid) \<longrightarrow>
      alternates sid False (w_emitted (snd (runVAD fl newHandler steps)))"
  proof
    assume "\<forall>st \<in> set steps. fst st \<noteq> Disconnect sid"
    then have "EmitDisconnected sid \<notin> set (w_emitted (snd (runVAD fl newHandler steps)))"
      by (rule connected_run) (simp add: newHandler_def)
    with inv show "alternates sid False (w_emitted (snd (runVAD fl newHandler steps)))"
      by (simp add: alternates_connected)
  qed
  have cancel: "calculateRMSEnergy fl data = Inr e \<and> numberGt e (vadThreshold h) \<longrightarrow>
      silenceTimers (snd (performVAD fl h sid data now)) sid = None"
  proof
    assume "calculateRMSEnergy fl data = Inr e \<and> numberGt e (vadThreshold h)"
    then show "silenceTimers (snd (performVAD fl h sid data now)) sid = None"
      using performVAD_speech [of fl data e h sid now] by simp
  qed
  from inv strict cancel show ?thesis
    by blast
qed

theorem vad_events_alternate_per_connection_witness:
  "edgesOf ''s1'' (w_emitted (snd (runVAD exactArith newHandler utterance)))
     = [EmitVadStart ''s1'', EmitVadEnd ''s1'']
   \<and> alternates ''s1'' False (w_emitted (snd (runVAD exactArith newHandler utterance)))
   \<and> silenceTimers (snd (runVAD exactArith newHandler (take 3 utterance))) ''s1'' = Some 1000
   \<and> calculateRMSEnergy exactArith halfFrame = Inr (Finite (1 / 2))
   \<and> numberGt (Finite (1 / 2))
        (vadThreshold (snd (runVAD exactArith newHandler (take 3 utterance))))
   \<and> silenceTimers
        (snd (performVAD exactArith (snd (runVAD exactArith newHandler (take 3 utterance)))
           ''s1'' halfFrame 3)) ''s1''
       = None"
proof -
  have armed: "silenceTimers (snd (runVAD exactArith newHandler (take 3 utterance))) ''s1''
      = Some 1000"
    and threshold: "numberGt (Finite (1 / 2))
      (vadThreshold (snd (runVAD exactArith newHandler (take 3 utterance))))"
    by (simp_all add: utterance_def newHandler_def handleConnection_def handleAudioData_def
        performVAD_def halfFrame_computed quietFrame_computed)
  have edges: "edgesOf ''s1'' (w_emitted (snd (runVAD exactArith newHandler utterance)))
      = [EmitVadStart ''s1'', EmitVadEnd ''s1'']"
    by (simp add: edgesOf_def utterance_def newHandler_def handleConnection_def
        handleAudioData_def performVAD_def silenceElapsed_def halfFrame_computed
        quietFrame_computed)
  have connected: "\<forall>st \<in> set utterance. fst st \<noteq> Disconnect ''s1''"
    by (simp add: utterance_def)
  from vad_events_alternate_per_connection [where sid = "''s1''" and fl = exactArith
      and steps = utterance and data = halfFrame and e = "Finite (1 / 2)"
      and h = "snd (runVAD exactArith newHandler (take 3 utterance))" and now = 3]
    connected halfFrame_computed threshold armed edges
  show ?thesis
    by simp
qed

text \<open>
  C10 as stated fails. A session's connection closes while the session is marked
  speaking, a second connection opens for it, and its next loud frame emits \<open>vad_start\<close>
  again: two starts follow each other with no end between them.
\<close>

theorem vad_start_twice_counterexample:
  "fst (runVAD exactArith newHandler reconnected) = None
   \<and> edgesOf ''s1'' (w_emitted (snd (runVAD exactArith newHandler reconnected)))
       = [EmitVadStart ''s1'', EmitVadStart ''s1'']
   \<and> \<not> alternates ''s1'' False (w_emitted (snd (runVAD exactArith newHandler reconnected)))"
  by (simp add: edgesOf_def reconnected_def newHandler_def handleConnection_def
      handleDisconnect_def handleAudioData_def performVAD_def halfFrame_computed)

end
